theory Spec2Isabelle
  imports Main "HOL-Library.Multiset"
begin

section \<open>The habit store (database.py)\<close>

text \<open>
  A \<open>datetime.date\<close> is represented by the number of days since \<open>date.min\<close>
  (0001-01-01), that is \<open>toordinal() - 1\<close>; 2025-11-04 is day 739558. The store keeps
  dates as ISO strings \<open>YYYY-MM-DD\<close>; these have a fixed width with zero padding, so
  the text order used by \<open>ORDER BY checkin_date\<close> is the order of the dates, and
  \<open>strptime\<close> with \<open>%Y-%m-%d\<close> reads back the date that \<open>isoformat\<close> wrote.
\<close>

type_synonym date = nat

text \<open>
  Exceptions are values. \<open>isinstance_Exception\<close> tells which of them an
  \<open>except Exception\<close> clause catches: everything but the exceptions that derive from
  \<open>BaseException\<close> alone (\<open>KeyboardInterrupt\<close>, \<open>SystemExit\<close>).
\<close>

datatype exc =
    OverflowError
  | IndexError
  | Exception string
  | BaseException string

fun isinstance_Exception :: "exc \<Rightarrow> bool" where
  "isinstance_Exception (BaseException _) = False"
| "isinstance_Exception _ = True"

text \<open>
  \<open>today - timedelta(days=i)\<close> for \<open>i \<ge> 0\<close>: Python raises \<open>OverflowError\<close> when the
  result would lie before \<open>date.min\<close>. Where \<open>i\<close> is at most the day number of
  \<open>today\<close> it is far below the largest \<open>timedelta\<close>, so nothing else can fail.
\<close>

definition date_sub :: "date \<Rightarrow> nat \<Rightarrow> exc + date" where
  "date_sub d i = (if i \<le> d then Inr (d - i) else Inl OverflowError)"

text \<open>
  The tables \<open>habits\<close> and \<open>progress\<close>. The rows of a table are listed in the order
  of insertion, which is the order of the \<open>AUTOINCREMENT\<close> key \<open>id\<close>; the position in
  the list stands for that key. The column \<open>completed\<close> holds \<open>int(bool(completed))\<close>,
  which is 1 or 0.
\<close>

record habit_row =
  h_id :: int
  h_user_id :: int
  h_name :: string
  h_start_date :: date

record progress_row =
  habit_id :: int
  checkin_date :: date
  completed :: bool

text \<open>
  What the functions of \<open>database.py\<close> read and write: the two tables, and the
  calendar date that \<open>date.today()\<close> returns at the moment of the call. The store is
  taken to be reachable and initialised; failures of SQLite itself are not modelled.
\<close>

record world =
  habits :: "habit_row list"
  progress :: "progress_row list"
  clock :: date

definition habit_exists :: "world \<Rightarrow> int \<Rightarrow> bool" where
  "habit_exists w hid = (hid \<in> h_id ` set (habits w))"

subsection \<open>Parameters of a statement\<close>

text \<open>
  \<open>cur.execute(sql, params)\<close> binds a Python \<open>int\<close> to an SQLite \<open>INTEGER\<close>, which has
  64 bits with a sign. For an \<open>int\<close> outside that range the binding raises
  \<open>OverflowError\<close> and the statement does not run. The keys of the tables are in the
  range, so every habit has an identifier that can be bound.
\<close>

definition sqlite_integer :: "int \<Rightarrow> bool" where
  "sqlite_integer n = (- (2 ^ 63) \<le> n \<and> n < 2 ^ 63)"

definition bind_integer :: "int \<Rightarrow> exc + int" where
  "bind_integer n = (if sqlite_integer n then Inr n else Inl OverflowError)"

subsection \<open>log_checkin\<close>

text \<open>
  \<open>INSERT INTO progress (habit_id, checkin_date, completed) VALUES (?, ?, ?)\<close> on a
  connection from \<open>_get_connection\<close>, which issues no \<open>PRAGMA foreign_keys\<close>: the
  insertion is not checked against the table \<open>habits\<close>. A missing \<open>checkin_date\<close>
  defaults to \<open>date.today()\<close>. The function returns \<open>None\<close>; the result of the model
  is the store after the call, or the exception, in which case the store is as before.
\<close>

definition log_checkin :: "int \<Rightarrow> bool \<Rightarrow> date option \<Rightarrow> world \<Rightarrow> exc + world" where
  "log_checkin hid compl checkin_date_arg w =
     (let d = (case checkin_date_arg of None \<Rightarrow> clock w | Some d' \<Rightarrow> d') in
      case bind_integer hid of
        Inl e \<Rightarrow> Inl e
      | Inr h \<Rightarrow>
          Inr (w\<lparr>progress := progress w @
                 [\<lparr>habit_id = h, checkin_date = d, completed = compl\<rparr>]\<rparr>))"

text \<open>
  \<open>k\<close> calls of \<open>log_checkin\<close> one after the other for the same habit and day, as the
  menu item for logging progress makes them when it is chosen \<open>k\<close> times.
\<close>

fun checkin_times :: "nat \<Rightarrow> int \<Rightarrow> bool \<Rightarrow> date \<Rightarrow> world \<Rightarrow> exc + world" where
  "checkin_times 0 hid compl d w = Inr w"
| "checkin_times (Suc k) hid compl d w =
     (case log_checkin hid compl (Some d) w of
        Inl e \<Rightarrow> Inl e
      | Inr w' \<Rightarrow> checkin_times k hid compl d w')"

subsection \<open>_get_completed_dates\<close>

text \<open>
  \<open>SELECT checkin_date FROM progress WHERE habit_id = ? AND completed = 1
  ORDER BY checkin_date DESC\<close>, each row parsed back to a date:
  \<open>select_completed_dates\<close> is the statement with its parameter bound. The function
  returns the list together with the store it leaves behind. Its name is written
  without the leading underscore.
\<close>

definition completed_rows :: "int \<Rightarrow> progress_row list \<Rightarrow> progress_row list" where
  "completed_rows hid rows = filter (\<lambda>r. habit_id r = hid \<and> completed r) rows"

definition order_by_desc :: "date list \<Rightarrow> date list" where
  "order_by_desc ds = rev (sort ds)"

definition select_completed_dates :: "int \<Rightarrow> progress_row list \<Rightarrow> date list" where
  "select_completed_dates h rows = order_by_desc (map checkin_date (completed_rows h rows))"

definition get_completed_dates :: "int \<Rightarrow> world \<Rightarrow> exc + date list \<times> world" where
  "get_completed_dates hid w =
     (case bind_integer hid of
        Inl e \<Rightarrow> Inl e
      | Inr h \<Rightarrow> Inr (select_completed_dates h (progress w), w))"

subsection \<open>get_streak\<close>

text \<open>
  The \<open>for i, record_date in enumerate(completed_dates)\<close> loop, with the counter
  \<open>streak\<close> as an accumulator; \<open>break\<close> returns the counter as it stands. The
  function has one parameter, the habit, and takes \<open>today\<close> from \<open>date.today()\<close>.
\<close>

fun streak_loop :: "date \<Rightarrow> nat \<Rightarrow> date list \<Rightarrow> nat \<Rightarrow> exc + nat" where
  "streak_loop today i [] streak = Inr streak"
| "streak_loop today i (record_date # rest) streak =
     (case date_sub today i of
        Inl e \<Rightarrow> Inl e
      | Inr expected \<Rightarrow>
          if record_date = expected
          then streak_loop today (i + 1) rest (streak + 1)
          else Inr streak)"

definition get_streak :: "int \<Rightarrow> world \<Rightarrow> exc + nat" where
  "get_streak hid w =
     (case get_completed_dates hid w of
        Inl e \<Rightarrow> Inl e
      | Inr (completed_dates, w') \<Rightarrow>
          if completed_dates = [] then Inr 0
          else let today = clock w' in streak_loop today 0 completed_dates 0)"

section \<open>Quotes and milestones (utils.py)\<close>

text \<open>
  Strings are lists of bytes in UTF-8: the dash of the fifth quote and the party-popper
  sign of the milestone message take three and four bytes.
\<close>

definition QUOTES :: "string list" where
  "QUOTES =
    [''Every journey begins with a single step.'',
     ''Success is the sum of small efforts, repeated day in and day out.'',
     ''Don't watch the clock; do what it does. Keep going.'',
     ''The secret of getting ahead is getting started.'',
     ''Keep pushing forward '' @ [CHR 0xE2, CHR 0x80, CHR 0x93] @
       '' your hard work will pay off.'',
     ''Discipline is choosing between what you want now and what you want most.'',
     ''Little by little, a little becomes a lot.'']"

text \<open>
  \<open>random.choice(seq)\<close> raises \<open>IndexError\<close> on an empty sequence and otherwise returns
  \<open>seq[randbelow(len(seq))]\<close>; the number \<open>r\<close> is what the generator draws.
\<close>

definition random_choice :: "nat \<Rightarrow> 'a list \<Rightarrow> exc + 'a" where
  "random_choice r seq =
     (if seq = [] then Inl IndexError else Inr (seq ! (r mod length seq)))"

definition get_random_quote :: "nat \<Rightarrow> exc + string" where
  "get_random_quote r = random_choice r QUOTES"

text \<open>\<open>str(n)\<close> of an integer, as the f-strings format it.\<close>

fun str_nat :: "nat \<Rightarrow> string" where
  "str_nat n =
     (if n < 10 then [char_of (48 + n)]
      else str_nat (n div 10) @ [char_of (48 + n mod 10)])"

definition str_int :: "int \<Rightarrow> string" where
  "str_int i = (if i < 0 then CHR ''-'' # str_nat (nat (- i)) else str_nat (nat i))"

definition get_milestone_message :: "int \<Rightarrow> string" where
  "get_milestone_message streak =
     (if streak \<in> {3, 7, 10}
      then [CHR 0xF0, CHR 0x9F, CHR 0x8E, CHR 0x89] @ '' You've hit a '' @ str_int streak @
           ''-day streak! Amazing discipline!''
      else '''')"

section \<open>The motivational message (chatbot.py)\<close>

text \<open>
  \<open>str.strip()\<close> removes from both ends the characters for which \<open>str.isspace()\<close>
  holds. \<open>WHITESPACE\<close> lists their encodings in UTF-8: the ten control and space
  characters below U+0080, then U+0085, U+00A0, U+1680, U+2000 to U+200A, U+2028, U+2029,
  U+202F, U+205F and U+3000. In a well-formed UTF-8 string such an encoding at either
  end is that character, since a leading byte is never a continuation byte.
\<close>

definition WHITESPACE :: "string list" where
  "WHITESPACE =
    [[CHR 0x09], [CHR 0x0A], [CHR 0x0B], [CHR 0x0C], [CHR 0x0D],
     [CHR 0x1C], [CHR 0x1D], [CHR 0x1E], [CHR 0x1F], [CHR 0x20],
     [CHR 0xC2, CHR 0x85], [CHR 0xC2, CHR 0xA0], [CHR 0xE1, CHR 0x9A, CHR 0x80],
     [CHR 0xE2, CHR 0x80, CHR 0x80], [CHR 0xE2, CHR 0x80, CHR 0x81],
     [CHR 0xE2, CHR 0x80, CHR 0x82], [CHR 0xE2, CHR 0x80, CHR 0x83],
     [CHR 0xE2, CHR 0x80, CHR 0x84], [CHR 0xE2, CHR 0x80, CHR 0x85],
     [CHR 0xE2, CHR 0x80, CHR 0x86], [CHR 0xE2, CHR 0x80, CHR 0x87],
     [CHR 0xE2, CHR 0x80, CHR 0x88], [CHR 0xE2, CHR 0x80, CHR 0x89],
     [CHR 0xE2, CHR 0x80, CHR 0x8A], [CHR 0xE2, CHR 0x80, CHR 0xA8],
     [CHR 0xE2, CHR 0x80, CHR 0xA9], [CHR 0xE2, CHR 0x80, CHR 0xAF],
     [CHR 0xE2, CHR 0x81, CHR 0x9F], [CHR 0xE3, CHR 0x80, CHR 0x80]]"

definition starts_with :: "string \<Rightarrow> string \<Rightarrow> bool" where
  "starts_with s p = (p \<noteq> [] \<and> take (length p) s = p)"

function strip_leading :: "string list \<Rightarrow> string \<Rightarrow> string" where
  "strip_leading ps s =
     (case find (starts_with s) ps of
        None \<Rightarrow> s
      | Some p \<Rightarrow> strip_leading ps (drop (length p) s))"
  by pat_completeness auto
termination
proof (relation "measure (\<lambda>(ps, s). length s)")
  show "wf (measure (\<lambda>(ps, s). length s))"
    by simp
next
  fix ps :: "string list" and s p :: string
  assume "find (starts_with s) ps = Some p"
  then have "starts_with s p"
    by (auto simp: find_Some_iff)
  then have "p \<noteq> []" and "take (length p) s = p"
    by (simp_all add: starts_with_def)
  then have "s \<noteq> []"
    by auto
  with \<open>p \<noteq> []\<close> show "((ps, drop (length p) s), (ps, s)) \<in> measure (\<lambda>(ps, s). length s)"
    by simp
qed

definition strip :: "string \<Rightarrow> string" where
  "strip s = rev (strip_leading (map rev WHITESPACE) (rev (strip_leading WHITESPACE s)))"

text \<open>
  What \<open>get_motivational_message\<close> reads from outside: the environment variable, the
  language-model service, and the random generator. \<open>chat_completion\<close> stands for the body
  of the \<open>try\<close> block up to \<open>response.content\<close>: given the two prompts, the construction of
  the client and the call either raise or return the content of the reply.
\<close>

record chat_env =
  OPENAI_API_KEY :: "string option"
  chat_completion :: "string \<Rightarrow> string \<Rightarrow> exc + string"
  random_draw :: nat

definition system_prompt :: string where
  "system_prompt =
     ''You are a friendly and supportive assistant. Your job is to encourage '' @
     ''recent graduates who are forming healthy habits.''"

definition human_prompt :: "string \<Rightarrow> string \<Rightarrow> int \<Rightarrow> string" where
  "human_prompt user_name habit_name streak =
     ''User '' @ user_name @ '' is working on the habit of '' @ [CHR 0x27] @ habit_name @
     [CHR 0x27] @ ''. '' @
     ''They currently have a streak of '' @ str_int streak @ '' days. '' @
     ''Provide a concise, upbeat motivational message to keep them going.''"

definition get_motivational_message ::
    "chat_env \<Rightarrow> string \<Rightarrow> string \<Rightarrow> int \<Rightarrow> exc + string" where
  "get_motivational_message env user_name habit_name streak =
     (let api_key = OPENAI_API_KEY env in
      if api_key = None \<or> api_key = Some ''''
      then get_random_quote (random_draw env)
      else
        (case chat_completion env system_prompt (human_prompt user_name habit_name streak) of
           Inr content \<Rightarrow> Inr (strip content)
         | Inl e \<Rightarrow>
             if isinstance_Exception e then get_random_quote (random_draw env)
             else Inl e))"

section \<open>Facts about the completed-dates query\<close>

lemma set_order_by_desc: "set (order_by_desc ds) = set ds"
  by (simp add: order_by_desc_def)

lemma mset_order_by_desc: "mset (order_by_desc ds) = mset ds"
  by (simp add: order_by_desc_def)

lemma sorted_order_by_desc: "sorted_wrt (\<lambda>a b. b \<le> a) (order_by_desc ds)"
proof -
  have "sorted (rev (order_by_desc ds))"
    by (simp add: order_by_desc_def)
  then show ?thesis
    by (simp add: sorted_wrt_rev)
qed

lemma count_list_order_by_desc: "count_list (order_by_desc ds) d = count_list ds d"
proof -
  have "count (mset (order_by_desc ds)) d = count (mset ds) d"
    by (simp only: mset_order_by_desc)
  then show ?thesis
    by (simp only: count_mset)
qed

lemma order_by_desc_mset_cong:
  assumes "mset xs = mset ys"
  shows "order_by_desc xs = order_by_desc ys"
proof -
  have "mset (sort ys) = mset xs"
    using assms by simp
  then have "sort xs = sort ys"
    by (rule properties_for_sort) simp
  then show ?thesis
    by (simp add: order_by_desc_def)
qed

lemma set_select_completed_dates:
  "set (select_completed_dates hid rows) =
     {checkin_date r | r. r \<in> set rows \<and> habit_id r = hid \<and> completed r}"
  by (auto simp: select_completed_dates_def set_order_by_desc completed_rows_def)

lemma mset_select_completed_dates:
  "mset (select_completed_dates hid rows) =
     image_mset checkin_date
       (filter_mset (\<lambda>r. habit_id r = hid \<and> completed r) (mset rows))"
  by (simp add: select_completed_dates_def mset_order_by_desc completed_rows_def)

lemma sorted_select_completed_dates:
  "sorted_wrt (\<lambda>a b. b \<le> a) (select_completed_dates hid rows)"
  by (simp add: select_completed_dates_def sorted_order_by_desc)

lemma count_list_map_filter:
  "count_list (map f (filter P xs)) d = length (filter (\<lambda>x. P x \<and> f x = d) xs)"
  by (induction xs) auto

lemma count_select_completed_dates:
  "count_list (select_completed_dates hid rows) d =
     length (filter (\<lambda>r. (habit_id r = hid \<and> completed r) \<and> checkin_date r = d) rows)"
  by (simp only: select_completed_dates_def count_list_order_by_desc completed_rows_def
        count_list_map_filter)

lemma select_completed_dates_empty:
  "(select_completed_dates hid rows = []) =
     (\<not> (\<exists>r \<in> set rows. habit_id r = hid \<and> completed r))"
  by (auto simp flip: set_empty simp: set_select_completed_dates)

lemma get_completed_dates_eq:
  "get_completed_dates hid w =
     (if sqlite_integer hid then Inr (select_completed_dates hid (progress w), w)
      else Inl OverflowError)"
  by (simp add: get_completed_dates_def bind_integer_def)

lemma get_streak_unfold:
  "get_streak hid w =
     (if sqlite_integer hid
      then streak_loop (clock w) 0 (select_completed_dates hid (progress w)) 0
      else Inl OverflowError)"
  by (cases "select_completed_dates hid (progress w)")
     (simp_all add: get_streak_def get_completed_dates_eq Let_def)

text \<open>
  C7. For every identifier that can be bound, and so for every habit, the query returns
  one date for each row of the habit with \<open>completed = 1\<close> and nothing else, so its dates
  are exactly the dates that carry a completed record; the list is in descending order,
  it is empty exactly when the habit has no completed record, and the store is left as
  it was. For any other identifier the binding raises \<open>OverflowError\<close>.
\<close>

theorem get_completed_dates_correct:
  "get_completed_dates hid w =
     (if sqlite_integer hid then Inr (select_completed_dates hid (progress w), w)
      else Inl OverflowError)
   \<and> set (select_completed_dates hid (progress w)) =
     {checkin_date r | r. r \<in> set (progress w) \<and> habit_id r = hid \<and> completed r}
   \<and> mset (select_completed_dates hid (progress w)) =
     image_mset checkin_date
       (filter_mset (\<lambda>r. habit_id r = hid \<and> completed r) (mset (progress w)))
   \<and> sorted_wrt (\<lambda>a b. b \<le> a) (select_completed_dates hid (progress w))
   \<and> ((select_completed_dates hid (progress w) = []) =
        (\<not> (\<exists>r \<in> set (progress w). habit_id r = hid \<and> completed r)))"
  using get_completed_dates_eq set_select_completed_dates mset_select_completed_dates
    sorted_select_completed_dates select_completed_dates_empty
  by blast

section \<open>Check-ins are appended\<close>

lemma log_checkin_eq:
  "log_checkin hid c dopt w =
     (if sqlite_integer hid
      then Inr (w\<lparr>progress := progress w @ [\<lparr>habit_id = hid,
        checkin_date = (case dopt of None \<Rightarrow> clock w | Some d \<Rightarrow> d), completed = c\<rparr>]\<rparr>)
      else Inl OverflowError)"
  by (simp add: log_checkin_def bind_integer_def Let_def)

lemma checkin_times_eq:
  assumes "sqlite_integer hid"
  shows "checkin_times k hid c d w =
     Inr (w\<lparr>progress := progress w @
       replicate k \<lparr>habit_id = hid, checkin_date = d, completed = c\<rparr>\<rparr>)"
  using assms
proof (induction k arbitrary: w)
  case 0
  show ?case by simp
next
  case (Suc k)
  then show ?case
    by (simp add: log_checkin_eq replicate_app_Cons_same)
qed

text \<open>
  C10 claims that \<open>log_checkin\<close> appends a row for every habit identifier. For the
  identifier \<open>2 ^ 63\<close>, which SQLite cannot hold, the binding raises \<open>OverflowError\<close>
  and no row is stored.
\<close>

theorem log_checkin_out_of_range:
  "log_checkin 9223372036854775808 True None
     \<lparr>habits = [], progress = [], clock = 739558\<rparr> = Inl OverflowError"
  by (simp add: log_checkin_def bind_integer_def sqlite_integer_def)

text \<open>
  C10, as the code has it. For every habit identifier that can be bound, and so for
  every habit, \<open>log_checkin\<close> adds one row at the end of \<open>progress\<close> and changes nothing
  else, whatever the date and the flag, and whatever rows are there already: it neither
  rejects nor overwrites. So \<open>k\<close> check-ins for the same habit and day leave \<open>k\<close> more
  rows, and when they are completed the query returns that day \<open>k\<close> more times. For any
  other identifier the call raises \<open>OverflowError\<close>.
\<close>

theorem log_checkin_appends:
  "(sqlite_integer hid \<longrightarrow>
      log_checkin hid c dopt w =
        Inr (w\<lparr>progress := progress w @ [\<lparr>habit_id = hid,
          checkin_date = (case dopt of None \<Rightarrow> clock w | Some d' \<Rightarrow> d'),
          completed = c\<rparr>]\<rparr>)
      \<and> (\<exists>w'. checkin_times k hid c d w = Inr w'
            \<and> progress w' =
                progress w @ replicate k \<lparr>habit_id = hid, checkin_date = d, completed = c\<rparr>
            \<and> habits w' = habits w \<and> clock w' = clock w
            \<and> get_completed_dates hid w' = Inr (select_completed_dates hid (progress w'), w')
            \<and> count_list (select_completed_dates hid (progress w')) d =
                count_list (select_completed_dates hid (progress w)) d + (if c then k else 0)))
   \<and> (\<not> sqlite_integer hid \<longrightarrow> log_checkin hid c dopt w = Inl OverflowError)"
proof (intro conjI impI)
  assume r: "sqlite_integer hid"
  then show "log_checkin hid c dopt w =
        Inr (w\<lparr>progress := progress w @ [\<lparr>habit_id = hid,
          checkin_date = (case dopt of None \<Rightarrow> clock w | Some d' \<Rightarrow> d'),
          completed = c\<rparr>]\<rparr>)"
    by (simp add: log_checkin_eq)
  let ?w' = "w\<lparr>progress := progress w @
       replicate k \<lparr>habit_id = hid, checkin_date = d, completed = c\<rparr>\<rparr>"
  have "checkin_times k hid c d w = Inr ?w'"
    using r by (rule checkin_times_eq)
  moreover have "get_completed_dates hid ?w' =
      Inr (select_completed_dates hid (progress ?w'), ?w')"
    using r by (simp add: get_completed_dates_eq)
  moreover have "count_list (select_completed_dates hid (progress ?w')) d =
      count_list (select_completed_dates hid (progress w)) d + (if c then k else 0)"
    by (simp add: count_select_completed_dates)
  ultimately show "\<exists>w'. checkin_times k hid c d w = Inr w'
            \<and> progress w' =
                progress w @ replicate k \<lparr>habit_id = hid, checkin_date = d, completed = c\<rparr>
            \<and> habits w' = habits w \<and> clock w' = clock w
            \<and> get_completed_dates hid w' = Inr (select_completed_dates hid (progress w'), w')
            \<and> count_list (select_completed_dates hid (progress w')) d =
                count_list (select_completed_dates hid (progress w)) d + (if c then k else 0)"
    by (intro exI [of _ ?w']) simp
next
  assume "\<not> sqlite_integer hid"
  then show "log_checkin hid c dopt w = Inl OverflowError"
    by (simp add: log_checkin_eq)
qed

theorem log_checkin_appends_witness:
  "log_checkin 1 True None
     \<lparr>habits = [], progress =
        [\<lparr>habit_id = 1, checkin_date = 739558, completed = True\<rparr>], clock = 739558\<rparr> =
   Inr \<lparr>habits = [], progress =
        [\<lparr>habit_id = 1, checkin_date = 739558, completed = True\<rparr>,
         \<lparr>habit_id = 1, checkin_date = 739558, completed = True\<rparr>], clock = 739558\<rparr>
   \<and> (\<exists>w'. checkin_times 2 1 True 739558
         \<lparr>habits = [], progress =
            [\<lparr>habit_id = 1, checkin_date = 739558, completed = True\<rparr>],
          clock = 739558\<rparr> = Inr w'
        \<and> length (progress w') = 3
        \<and> count_list (select_completed_dates 1 (progress w')) 739558 = 3)
   \<and> log_checkin 9223372036854775808 True None
     \<lparr>habits = [], progress =
        [\<lparr>habit_id = 1, checkin_date = 739558, completed = True\<rparr>], clock = 739558\<rparr> =
     Inl OverflowError"
  using log_checkin_appends [where hid = 1 and c = True and dopt = None and k = 2
      and d = 739558 and w = "\<lparr>habits = [], progress =
        [\<lparr>habit_id = 1, checkin_date = 739558, completed = True\<rparr>], clock = 739558\<rparr>"]
    log_checkin_appends [where hid = 9223372036854775808 and c = True and dopt = None
      and w = "\<lparr>habits = [], progress =
        [\<lparr>habit_id = 1, checkin_date = 739558, completed = True\<rparr>], clock = 739558\<rparr>"]
  by (auto simp: sqlite_integer_def count_select_completed_dates)

section \<open>The streak\<close>

text \<open>
  C6. A habit with no completed record has streak 0, whatever date the clock shows. This
  holds for every identifier that can be bound, and so for every habit; for any other
  identifier the query raises \<open>OverflowError\<close>.
\<close>

theorem get_streak_no_completions:
  assumes "\<forall>r \<in> set (progress w). habit_id r = hid \<longrightarrow> \<not> completed r"
  shows "get_streak hid (w\<lparr>clock := today\<rparr>) =
           (if sqlite_integer hid then Inr 0 else Inl OverflowError)"
proof -
  from assms have "select_completed_dates hid (progress w) = []"
    by (simp add: select_completed_dates_empty)
  then show ?thesis
    by (simp add: get_streak_unfold)
qed

theorem get_streak_no_completions_witness:
  "get_streak 1
     \<lparr>habits = [], progress =
        [\<lparr>habit_id = 1, checkin_date = 739557, completed = False\<rparr>,
         \<lparr>habit_id = 2, checkin_date = 739558, completed = True\<rparr>],
      clock = 739558\<rparr> = Inr 0"
  using get_streak_no_completions
    [of "\<lparr>habits = [], progress =
        [\<lparr>habit_id = 1, checkin_date = 739557, completed = False\<rparr>,
         \<lparr>habit_id = 2, checkin_date = 739558, completed = True\<rparr>],
      clock = 0\<rparr>" 1 739558]
  by (simp add: sqlite_integer_def)

text \<open>
  C5. When no completed record of the habit carries the date of today, the streak is 0,
  whatever was completed on other days. This holds for every identifier that can be
  bound, and so for every habit; for any other identifier the query raises
  \<open>OverflowError\<close>.
\<close>

theorem get_streak_not_completed_today:
  assumes "\<forall>r \<in> set (progress w).
             habit_id r = hid \<and> completed r \<longrightarrow> checkin_date r \<noteq> clock w"
  shows "get_streak hid w = (if sqlite_integer hid then Inr 0 else Inl OverflowError)"
proof (cases "select_completed_dates hid (progress w)")
  case Nil
  then show ?thesis
    by (simp add: get_streak_unfold)
next
  case (Cons d rest)
  then have "d \<in> set (select_completed_dates hid (progress w))"
    by simp
  with assms have "d \<noteq> clock w"
    by (auto simp: set_select_completed_dates)
  with Cons show ?thesis
    by (simp add: get_streak_unfold date_sub_def)
qed

theorem get_streak_not_completed_today_witness:
  "get_streak 1
     \<lparr>habits = [], progress =
        [\<lparr>habit_id = 1, checkin_date = 739556, completed = True\<rparr>,
         \<lparr>habit_id = 1, checkin_date = 739557, completed = True\<rparr>,
         \<lparr>habit_id = 1, checkin_date = 739558, completed = False\<rparr>],
      clock = 739558\<rparr> = Inr 0"
  using get_streak_not_completed_today
    [of "\<lparr>habits = [], progress =
        [\<lparr>habit_id = 1, checkin_date = 739556, completed = True\<rparr>,
         \<lparr>habit_id = 1, checkin_date = 739557, completed = True\<rparr>,
         \<lparr>habit_id = 1, checkin_date = 739558, completed = False\<rparr>],
      clock = 739558\<rparr>" 1]
  by (simp add: sqlite_integer_def)

subsection \<open>The reference date\<close>

text \<open>
  What the loop returns: started at index \<open>i\<close> with the counter at \<open>s\<close>, it adds the
  number \<open>m\<close> of leading entries that are the days \<open>today - i\<close>, \<open>today - (i + 1)\<close>, ...
  position by position, and the entry after them, when there is one, is not the next
  day of that row.
\<close>

lemma streak_loop_counts_prefix:
  assumes "streak_loop today i ds s = Inr n"
  shows "\<exists>m. n = s + m \<and> m \<le> length ds \<and> (\<forall>j < m. ds ! j + (i + j) = today)
           \<and> (m < length ds \<longrightarrow> ds ! m + (i + m) \<noteq> today)"
  using assms
proof (induction ds arbitrary: i s)
  case Nil
  then show ?case by simp
next
  case (Cons d ds)
  from Cons.prems have i_le: "i \<le> today"
    by (auto simp: date_sub_def split: if_splits)
  show ?case
  proof (cases "d = today - i")
    case True
    with Cons.prems i_le have "streak_loop today (i + 1) ds (s + 1) = Inr n"
      by (simp add: date_sub_def)
    then obtain m where m: "n = s + 1 + m" "m \<le> length ds"
        "\<forall>j < m. ds ! j + (i + 1 + j) = today"
        "m < length ds \<longrightarrow> ds ! m + (i + 1 + m) \<noteq> today"
      using Cons.IH by blast
    have "\<forall>j < Suc m. (d # ds) ! j + (i + j) = today"
    proof (intro allI impI)
      fix j assume "j < Suc m"
      then show "(d # ds) ! j + (i + j) = today"
        using m(3) True i_le by (cases j) auto
    qed
    moreover have "Suc m < length (d # ds) \<longrightarrow> (d # ds) ! Suc m + (i + Suc m) \<noteq> today"
      using m(4) by simp
    ultimately show ?thesis
      using m(1,2) by (intro exI [of _ "Suc m"]) simp
  next
    case False
    with Cons.prems i_le have "n = s"
      by (simp add: date_sub_def)
    moreover from False i_le have "d + i \<noteq> today"
      by arith
    ultimately show ?thesis
      by (intro exI [of _ 0]) simp
  qed
qed

text \<open>
  The loop raises nothing when the list is not longer than the days from \<open>date.min\<close> to
  the day it starts with.
\<close>

lemma streak_loop_returns:
  assumes "length ds + i \<le> Suc today"
  shows "\<exists>n. streak_loop today i ds s = Inr n"
  using assms
proof (induction ds arbitrary: i s)
  case Nil
  show ?case by simp
next
  case (Cons d ds)
  then have "i \<le> today" and "length ds + (i + 1) \<le> Suc today"
    by simp_all
  with Cons.IH [of "i + 1" "s + 1"] show ?case
    by (simp add: date_sub_def)
qed

text \<open>
  C2 claims that the streak is evaluated as of a reference date given by the caller and
  that no clock is read. \<open>get_streak\<close> has no such parameter: with the same stored
  history and the same argument, the result on 2025-11-04 is 1 and on 2025-11-05 it is 0.
\<close>

theorem get_streak_reads_clock:
  "get_streak 1 \<lparr>habits = [], progress =
      [\<lparr>habit_id = 1, checkin_date = 739558, completed = True\<rparr>],
      clock = 739558\<rparr> = Inr 1
   \<and> get_streak 1 \<lparr>habits = [], progress =
      [\<lparr>habit_id = 1, checkin_date = 739558, completed = True\<rparr>],
      clock = 739559\<rparr> = Inr 0"
  by (simp add: get_streak_unfold sqlite_integer_def select_completed_dates_def
        completed_rows_def order_by_desc_def date_sub_def)

text \<open>
  C2, as the code has it. \<open>get_streak\<close> takes the habit alone and reads the date from
  \<open>date.today()\<close>. Its result is a function of the completed records stored for the
  habit and of that date, and of nothing else: two calls with the same completed records
  on the same calendar day return the same result. A number it returns is the number
  \<open>n\<close> of leading entries of the descending list of completed dates that are today, the
  day before, ... position by position, up to the first entry that is not; and it
  returns a number whenever the identifier can be bound and the list is not longer than
  the days from \<open>date.min\<close> to today.
\<close>

theorem get_streak_scan_from_clock:
  "(completed_rows hid (progress w) = completed_rows hid (progress w') \<and> clock w = clock w'
      \<longrightarrow> get_streak hid w = get_streak hid w')
   \<and> (get_streak hid w = Inr n \<longrightarrow>
        n \<le> length (select_completed_dates hid (progress w))
        \<and> (\<forall>i < n. select_completed_dates hid (progress w) ! i + i = clock w)
        \<and> (n < length (select_completed_dates hid (progress w)) \<longrightarrow>
             select_completed_dates hid (progress w) ! n + n \<noteq> clock w))
   \<and> (sqlite_integer hid \<and> length (select_completed_dates hid (progress w)) \<le> Suc (clock w)
      \<longrightarrow> (\<exists>m. get_streak hid w = Inr m))"
proof (intro conjI impI)
  assume "completed_rows hid (progress w) = completed_rows hid (progress w') \<and>
    clock w = clock w'"
  then show "get_streak hid w = get_streak hid w'"
    by (simp add: get_streak_unfold select_completed_dates_def)
next
  assume r: "get_streak hid w = Inr n"
  then have "streak_loop (clock w) 0 (select_completed_dates hid (progress w)) 0 = Inr n"
    by (simp add: get_streak_unfold split: if_splits)
  from streak_loop_counts_prefix [OF this]
  show "n \<le> length (select_completed_dates hid (progress w))"
    and "\<forall>i < n. select_completed_dates hid (progress w) ! i + i = clock w"
    and "n < length (select_completed_dates hid (progress w)) \<Longrightarrow>
           select_completed_dates hid (progress w) ! n + n \<noteq> clock w"
    by auto
next
  assume "sqlite_integer hid \<and>
    length (select_completed_dates hid (progress w)) \<le> Suc (clock w)"
  then show "\<exists>m. get_streak hid w = Inr m"
    using streak_loop_returns [of "select_completed_dates hid (progress w)" 0 "clock w" 0]
    by (simp add: get_streak_unfold)
qed

theorem get_streak_scan_from_clock_witness:
  "get_streak 1
     \<lparr>habits = [], progress =
        [\<lparr>habit_id = 1, checkin_date = 739557, completed = True\<rparr>,
         \<lparr>habit_id = 1, checkin_date = 739558, completed = True\<rparr>], clock = 739558\<rparr> =
   get_streak 1
     \<lparr>habits = [\<lparr>h_id = 1, h_user_id = 1, h_name = ''run'', h_start_date = 739557\<rparr>],
      progress =
        [\<lparr>habit_id = 2, checkin_date = 739558, completed = True\<rparr>,
         \<lparr>habit_id = 1, checkin_date = 739557, completed = True\<rparr>,
         \<lparr>habit_id = 1, checkin_date = 739556, completed = False\<rparr>,
         \<lparr>habit_id = 1, checkin_date = 739558, completed = True\<rparr>], clock = 739558\<rparr>
   \<and> (\<exists>m. get_streak 1
     \<lparr>habits = [], progress =
        [\<lparr>habit_id = 1, checkin_date = 739557, completed = True\<rparr>,
         \<lparr>habit_id = 1, checkin_date = 739558, completed = True\<rparr>], clock = 739558\<rparr> = Inr m)
   \<and> select_completed_dates 1
        [\<lparr>habit_id = 1, checkin_date = 739557, completed = True\<rparr>,
         \<lparr>habit_id = 1, checkin_date = 739558, completed = True\<rparr>] ! 0 + 0 = 739558
   \<and> select_completed_dates 1
        [\<lparr>habit_id = 1, checkin_date = 739557, completed = True\<rparr>,
         \<lparr>habit_id = 1, checkin_date = 739558, completed = True\<rparr>] ! 1 + 1 = 739558"
proof -
  let ?w = "\<lparr>habits = [], progress =
        [\<lparr>habit_id = 1, checkin_date = 739557, completed = True\<rparr>,
         \<lparr>habit_id = 1, checkin_date = 739558, completed = True\<rparr>], clock = 739558\<rparr>"
  let ?w' = "\<lparr>habits = [\<lparr>h_id = 1, h_user_id = 1, h_name = ''run'', h_start_date = 739557\<rparr>],
      progress =
        [\<lparr>habit_id = 2, checkin_date = 739558, completed = True\<rparr>,
         \<lparr>habit_id = 1, checkin_date = 739557, completed = True\<rparr>,
         \<lparr>habit_id = 1, checkin_date = 739556, completed = False\<rparr>,
         \<lparr>habit_id = 1, checkin_date = 739558, completed = True\<rparr>], clock = 739558\<rparr>"
  have len: "length (select_completed_dates 1 (progress ?w)) = 2"
    by (simp add: select_completed_dates_def completed_rows_def order_by_desc_def)
  have two: "get_streak 1 ?w = Inr 2"
    by (simp add: get_streak_unfold sqlite_integer_def select_completed_dates_def
          completed_rows_def order_by_desc_def date_sub_def)
  have same: "get_streak 1 ?w = get_streak 1 ?w'"
    using get_streak_scan_from_clock [where hid = 1 and w = ?w and w' = ?w' and n = 0]
    by (simp add: completed_rows_def)
  have returns: "\<exists>m. get_streak 1 ?w = Inr m"
    using get_streak_scan_from_clock [where hid = 1 and w = ?w and w' = ?w and n = 0] len
    by (simp add: sqlite_integer_def)
  have scan: "\<forall>i < 2. select_completed_dates 1 (progress ?w) ! i + i = 739558"
    using get_streak_scan_from_clock [where hid = 1 and w = ?w and w' = ?w and n = 2] two
    by simp
  have "select_completed_dates 1 (progress ?w) ! 0 + 0 = 739558"
    and "select_completed_dates 1 (progress ?w) ! 1 + 1 = 739558"
    using scan [rule_format, of 0] scan [rule_format, of 1] by simp_all
  with same returns show ?thesis
    by simp
qed

subsection \<open>Habits that do not exist\<close>

text \<open>
  C3 claims that a check-in or a query for a habit that does not exist fails with an
  error of the kind NotFound. With habit 1 as the only habit, the streak of habit 7 is
  the defaulted result 0, and a check-in for habit 7 is stored.
\<close>

theorem nonexistent_habit_no_error:
  "\<not> habit_exists
       \<lparr>habits = [\<lparr>h_id = 1, h_user_id = 1, h_name = ''run'', h_start_date = 739557\<rparr>],
        progress = [\<lparr>habit_id = 1, checkin_date = 739558, completed = True\<rparr>],
        clock = 739558\<rparr> 7
   \<and> get_streak 7
       \<lparr>habits = [\<lparr>h_id = 1, h_user_id = 1, h_name = ''run'', h_start_date = 739557\<rparr>],
        progress = [\<lparr>habit_id = 1, checkin_date = 739558, completed = True\<rparr>],
        clock = 739558\<rparr> = Inr 0
   \<and> log_checkin 7 True None
       \<lparr>habits = [\<lparr>h_id = 1, h_user_id = 1, h_name = ''run'', h_start_date = 739557\<rparr>],
        progress = [\<lparr>habit_id = 1, checkin_date = 739558, completed = True\<rparr>],
        clock = 739558\<rparr> =
     Inr \<lparr>habits = [\<lparr>h_id = 1, h_user_id = 1, h_name = ''run'', h_start_date = 739557\<rparr>],
        progress = [\<lparr>habit_id = 1, checkin_date = 739558, completed = True\<rparr>,
                    \<lparr>habit_id = 7, checkin_date = 739558, completed = True\<rparr>],
        clock = 739558\<rparr>"
  by (simp add: habit_exists_def get_streak_unfold sqlite_integer_def
        select_completed_dates_def completed_rows_def order_by_desc_def log_checkin_eq)

text \<open>
  C3, as the code has it. The queries never read the table \<open>habits\<close> and have no error
  for a habit that is not there, so whether the habit exists makes no difference to them.
  For an identifier that can be bound and has no check-ins, and so for one that refers
  to no habit and was never checked in, the completed-dates query returns the empty list
  and the streak is 0. For an identifier that cannot be bound, which no habit has, the
  binding raises \<open>OverflowError\<close>.
\<close>

theorem queries_ignore_habits_table:
  "get_streak hid (w\<lparr>habits := hs\<rparr>) = get_streak hid w
   \<and> get_completed_dates hid (w\<lparr>habits := hs\<rparr>) =
       (if sqlite_integer hid
        then Inr (select_completed_dates hid (progress w), w\<lparr>habits := hs\<rparr>)
        else Inl OverflowError)
   \<and> ((\<forall>r \<in> set (progress w). habit_id r \<noteq> hid) \<longrightarrow>
        get_completed_dates hid w =
          (if sqlite_integer hid then Inr ([], w) else Inl OverflowError)
        \<and> get_streak hid w = (if sqlite_integer hid then Inr 0 else Inl OverflowError))"
proof -
  have "select_completed_dates hid (progress w) = []"
    if "\<forall>r \<in> set (progress w). habit_id r \<noteq> hid"
    using that by (auto simp: select_completed_dates_empty)
  then show ?thesis
    by (simp add: get_streak_unfold get_completed_dates_eq)
qed

theorem queries_ignore_habits_table_witness:
  "\<not> habit_exists \<lparr>habits = [], progress =
        [\<lparr>habit_id = 1, checkin_date = 739558, completed = True\<rparr>], clock = 739558\<rparr> 7
   \<and> get_completed_dates 7 \<lparr>habits = [], progress =
        [\<lparr>habit_id = 1, checkin_date = 739558, completed = True\<rparr>], clock = 739558\<rparr> =
       Inr ([], \<lparr>habits = [], progress =
        [\<lparr>habit_id = 1, checkin_date = 739558, completed = True\<rparr>], clock = 739558\<rparr>)
   \<and> get_streak 7 \<lparr>habits = [], progress =
        [\<lparr>habit_id = 1, checkin_date = 739558, completed = True\<rparr>], clock = 739558\<rparr> =
       Inr 0
   \<and> get_streak 9223372036854775808 \<lparr>habits = [], progress =
        [\<lparr>habit_id = 1, checkin_date = 739558, completed = True\<rparr>], clock = 739558\<rparr> =
       Inl OverflowError"
  using queries_ignore_habits_table
    [where hid = 7 and hs = "[]" and w = "\<lparr>habits = [], progress =
        [\<lparr>habit_id = 1, checkin_date = 739558, completed = True\<rparr>], clock = 739558\<rparr>"]
    queries_ignore_habits_table
    [where hid = 9223372036854775808 and hs = "[]" and w = "\<lparr>habits = [], progress =
        [\<lparr>habit_id = 1, checkin_date = 739558, completed = True\<rparr>], clock = 739558\<rparr>"]
  by (simp add: habit_exists_def sqlite_integer_def select_completed_dates_def
        completed_rows_def order_by_desc_def)

subsection \<open>Consecutive days\<close>

text \<open>
  The loop from index \<open>i\<close> on a descending list whose dates are at most \<open>today - i\<close>:
  when each of the days \<open>today - i\<close>, ..., \<open>today - (n - 1)\<close> occurs once and the day
  \<open>today - n\<close> does not occur, the loop adds \<open>n - i\<close> to the counter and raises nothing.
\<close>

lemma streak_loop_consecutive:
  assumes "sorted_wrt (\<lambda>a b. b \<le> a) ds"
    and "\<forall>d \<in> set ds. d + i \<le> today"
    and "\<forall>k. i \<le> k \<and> k < n \<longrightarrow> k \<le> today \<and> count_list ds (today - k) = 1"
    and "n \<le> today \<longrightarrow> today - n \<notin> set ds"
    and "i \<le> n"
  shows "streak_loop today i ds s = Inr (s + (n - i))"
  using assms
proof (induction ds arbitrary: i s)
  case Nil
  have "i = n"
  proof (rule ccontr)
    assume "i \<noteq> n"
    with Nil.prems(5) have "i < n" by simp
    with Nil.prems(3) have "count_list ([]::nat list) (today - i) = 1" by blast
    then show False by simp
  qed
  then show ?case by simp
next
  case (Cons d ds)
  from Cons.prems(2) have i_le: "i \<le> today" by auto
  from Cons.prems(2) have d_le: "d \<le> today - i" by auto
  show ?case
  proof (cases "i < n")
    case True
    with Cons.prems(3) have c1: "count_list (d # ds) (today - i) = 1" by blast
    then have "count_list (d # ds) (today - i) \<noteq> 0" by simp
    then have mem: "today - i \<in> set (d # ds)"
      by (simp only: count_list_0_iff not_not)
    from Cons.prems(1) have below: "\<forall>x \<in> set ds. x \<le> d" by simp
    with mem have "today - i \<le> d" by auto
    with d_le have d: "d = today - i" by simp
    with c1 have "count_list ds (today - i) = 0" by simp
    then have notin: "today - i \<notin> set ds"
      by (simp add: count_list_0_iff)
    have p1: "sorted_wrt (\<lambda>a b. b \<le> a) ds"
      using Cons.prems(1) by simp
    have p2: "\<forall>x \<in> set ds. x + (i + 1) \<le> today"
    proof
      fix x assume x: "x \<in> set ds"
      with below d have "x \<le> today - i" by simp
      moreover from x notin have "x \<noteq> today - i" by auto
      ultimately show "x + (i + 1) \<le> today" using i_le by arith
    qed
    have p3: "\<forall>k. i + 1 \<le> k \<and> k < n \<longrightarrow> k \<le> today \<and> count_list ds (today - k) = 1"
    proof (intro allI impI)
      fix k assume k: "i + 1 \<le> k \<and> k < n"
      with Cons.prems(3) have kt: "k \<le> today" and c: "count_list (d # ds) (today - k) = 1"
        by auto
      from k kt i_le d have "today - k \<noteq> d" by arith
      with c have "count_list ds (today - k) = 1" by simp
      with kt show "k \<le> today \<and> count_list ds (today - k) = 1" by simp
    qed
    have p4: "n \<le> today \<longrightarrow> today - n \<notin> set ds"
      using Cons.prems(4) by simp
    have p5: "i + 1 \<le> n" using True by simp
    have "streak_loop today (i + 1) ds (s + 1) = Inr (s + 1 + (n - (i + 1)))"
      by (rule Cons.IH [OF p1 p2 p3 p4 p5])
    moreover have "s + 1 + (n - (i + 1)) = s + (n - i)"
      using True by arith
    ultimately show ?thesis
      using d i_le by (simp add: date_sub_def)
  next
    case False
    with Cons.prems(5) have n: "i = n" by simp
    with i_le Cons.prems(4) have "today - i \<notin> set (d # ds)" by simp
    then have "d \<noteq> today - i" by auto
    then show ?thesis
      using n i_le by (simp add: date_sub_def)
  qed
qed

text \<open>
  Where the streak is the number of consecutive days: no completed record is dated after
  today, each of the \<open>n\<close> days up to today has exactly one completed record, and the day
  before them has none.
\<close>

lemma get_streak_consecutive_once:
  assumes bound: "sqlite_integer hid"
    and future: "\<forall>r \<in> set (progress w).
             habit_id r = hid \<and> completed r \<longrightarrow> checkin_date r \<le> clock w"
    and once: "\<forall>k < n. k \<le> clock w \<and>
             length (filter (\<lambda>r. (habit_id r = hid \<and> completed r) \<and>
                checkin_date r = clock w - k) (progress w)) = 1"
    and gap: "n \<le> clock w \<longrightarrow> (\<forall>r \<in> set (progress w).
             habit_id r = hid \<and> completed r \<longrightarrow> checkin_date r \<noteq> clock w - n)"
  shows "get_streak hid w = Inr n"
proof -
  let ?ds = "select_completed_dates hid (progress w)"
  have p1: "sorted_wrt (\<lambda>a b. b \<le> a) ?ds"
    by (rule sorted_select_completed_dates)
  have p2: "\<forall>d \<in> set ?ds. d + 0 \<le> clock w"
    using future by (auto simp: set_select_completed_dates)
  have p3: "\<forall>k. 0 \<le> k \<and> k < n \<longrightarrow> k \<le> clock w \<and> count_list ?ds (clock w - k) = 1"
    using once by (simp add: count_select_completed_dates)
  have p4: "n \<le> clock w \<longrightarrow> clock w - n \<notin> set ?ds"
    using gap by (auto simp: set_select_completed_dates)
  have "streak_loop (clock w) 0 ?ds 0 = Inr (0 + (n - 0))"
    by (rule streak_loop_consecutive [OF p1 p2 p3 p4]) simp
  then show ?thesis
    using bound by (simp add: get_streak_unfold)
qed

text \<open>
  Two runs: completed on the last three days, with an older record before a missed day,
  the streak is 3; completed today and two days ago but not yesterday, it is 1.
\<close>

lemma get_streak_three_days_example:
  "get_streak 1 \<lparr>habits = [], progress =
      [\<lparr>habit_id = 1, checkin_date = 739556, completed = True\<rparr>,
       \<lparr>habit_id = 1, checkin_date = 739557, completed = True\<rparr>,
       \<lparr>habit_id = 1, checkin_date = 739558, completed = True\<rparr>,
       \<lparr>habit_id = 1, checkin_date = 739554, completed = True\<rparr>,
       \<lparr>habit_id = 1, checkin_date = 739555, completed = False\<rparr>],
      clock = 739558\<rparr> = Inr 3"
  using get_streak_consecutive_once [where n = 3 and hid = 1 and w = "\<lparr>habits = [], progress =
      [\<lparr>habit_id = 1, checkin_date = 739556, completed = True\<rparr>,
       \<lparr>habit_id = 1, checkin_date = 739557, completed = True\<rparr>,
       \<lparr>habit_id = 1, checkin_date = 739558, completed = True\<rparr>,
       \<lparr>habit_id = 1, checkin_date = 739554, completed = True\<rparr>,
       \<lparr>habit_id = 1, checkin_date = 739555, completed = False\<rparr>],
      clock = 739558\<rparr>"]
  by (simp add: numeral_3_eq_3 less_Suc_eq sqlite_integer_def)

lemma get_streak_gap_example:
  "get_streak 1 \<lparr>habits = [], progress =
      [\<lparr>habit_id = 1, checkin_date = 739556, completed = True\<rparr>,
       \<lparr>habit_id = 1, checkin_date = 739558, completed = True\<rparr>], clock = 739558\<rparr> = Inr 1"
  by (simp add: get_streak_unfold sqlite_integer_def select_completed_dates_def
        completed_rows_def order_by_desc_def date_sub_def)

text \<open>
  C1. The habit is checked in as completed once on 2025-11-03 and twice on 2025-11-04,
  and today is 2025-11-04. It has a completed record on today and on the day before and
  none on the day before that, so the claim gives 2. The query returns
  \<open>[2025-11-04, 2025-11-04, 2025-11-03]\<close>; at index 1 the loop meets the second copy of
  today where it expects yesterday and stops: the result is 1.
\<close>

theorem get_streak_duplicate_checkin:
  "get_completed_dates 1
     \<lparr>habits = [\<lparr>h_id = 1, h_user_id = 1, h_name = ''run'', h_start_date = 739557\<rparr>],
      progress =
        [\<lparr>habit_id = 1, checkin_date = 739557, completed = True\<rparr>,
         \<lparr>habit_id = 1, checkin_date = 739558, completed = True\<rparr>,
         \<lparr>habit_id = 1, checkin_date = 739558, completed = True\<rparr>],
      clock = 739558\<rparr> =
   Inr ([739558, 739558, 739557],
     \<lparr>habits = [\<lparr>h_id = 1, h_user_id = 1, h_name = ''run'', h_start_date = 739557\<rparr>],
      progress =
        [\<lparr>habit_id = 1, checkin_date = 739557, completed = True\<rparr>,
         \<lparr>habit_id = 1, checkin_date = 739558, completed = True\<rparr>,
         \<lparr>habit_id = 1, checkin_date = 739558, completed = True\<rparr>],
      clock = 739558\<rparr>)
   \<and> get_streak 1
     \<lparr>habits = [\<lparr>h_id = 1, h_user_id = 1, h_name = ''run'', h_start_date = 739557\<rparr>],
      progress =
        [\<lparr>habit_id = 1, checkin_date = 739557, completed = True\<rparr>,
         \<lparr>habit_id = 1, checkin_date = 739558, completed = True\<rparr>,
         \<lparr>habit_id = 1, checkin_date = 739558, completed = True\<rparr>],
      clock = 739558\<rparr> = Inr 1"
  by (simp add: get_streak_unfold get_completed_dates_eq sqlite_integer_def
        select_completed_dates_def completed_rows_def order_by_desc_def date_sub_def)

subsection \<open>Order of insertion and repeated days\<close>

text \<open>
  The order in which the rows were inserted makes no difference: two stores with the
  same rows, in any order, give the same streak on the same day.
\<close>

lemma get_streak_insertion_order:
  assumes "mset (progress w) = mset (progress w')" and "clock w = clock w'"
  shows "get_streak hid w = get_streak hid w'"
proof -
  have "mset (map checkin_date (completed_rows hid (progress w))) =
        mset (map checkin_date (completed_rows hid (progress w')))"
  proof -
    have "image_mset checkin_date
            (filter_mset (\<lambda>r. habit_id r = hid \<and> completed r) (mset (progress w))) =
          image_mset checkin_date
            (filter_mset (\<lambda>r. habit_id r = hid \<and> completed r) (mset (progress w')))"
      by (simp only: assms(1))
    then show ?thesis
      by (simp add: completed_rows_def)
  qed
  then have "select_completed_dates hid (progress w) =
      select_completed_dates hid (progress w')"
    unfolding select_completed_dates_def by (rule order_by_desc_mset_cong)
  with assms(2) show ?thesis
    by (simp add: get_streak_unfold)
qed

text \<open>
  C4. Two histories that mark the same calendar days as completed, 2025-11-03 and
  2025-11-04, looked at on 2025-11-04: in the first each day has one completed record
  and the streak is 2, in the second 2025-11-04 has two and the streak is 1. The result
  depends on how often a day is recorded, not only on which days are.
\<close>

theorem get_streak_depends_on_multiplicity:
  "set (select_completed_dates 1
        [\<lparr>habit_id = 1, checkin_date = 739557, completed = True\<rparr>,
         \<lparr>habit_id = 1, checkin_date = 739558, completed = True\<rparr>]) =
   set (select_completed_dates 1
        [\<lparr>habit_id = 1, checkin_date = 739557, completed = True\<rparr>,
         \<lparr>habit_id = 1, checkin_date = 739558, completed = True\<rparr>,
         \<lparr>habit_id = 1, checkin_date = 739558, completed = True\<rparr>])
   \<and> get_completed_dates 1
     \<lparr>habits = [], progress =
        [\<lparr>habit_id = 1, checkin_date = 739557, completed = True\<rparr>,
         \<lparr>habit_id = 1, checkin_date = 739558, completed = True\<rparr>],
      clock = 739558\<rparr> =
     Inr ([739558, 739557], \<lparr>habits = [], progress =
        [\<lparr>habit_id = 1, checkin_date = 739557, completed = True\<rparr>,
         \<lparr>habit_id = 1, checkin_date = 739558, completed = True\<rparr>],
      clock = 739558\<rparr>)
   \<and> get_completed_dates 1
     \<lparr>habits = [], progress =
        [\<lparr>habit_id = 1, checkin_date = 739557, completed = True\<rparr>,
         \<lparr>habit_id = 1, checkin_date = 739558, completed = True\<rparr>,
         \<lparr>habit_id = 1, checkin_date = 739558, completed = True\<rparr>],
      clock = 739558\<rparr> =
     Inr ([739558, 739558, 739557], \<lparr>habits = [], progress =
        [\<lparr>habit_id = 1, checkin_date = 739557, completed = True\<rparr>,
         \<lparr>habit_id = 1, checkin_date = 739558, completed = True\<rparr>,
         \<lparr>habit_id = 1, checkin_date = 739558, completed = True\<rparr>],
      clock = 739558\<rparr>)
   \<and> get_streak 1
     \<lparr>habits = [], progress =
        [\<lparr>habit_id = 1, checkin_date = 739557, completed = True\<rparr>,
         \<lparr>habit_id = 1, checkin_date = 739558, completed = True\<rparr>],
      clock = 739558\<rparr> = Inr 2
   \<and> get_streak 1
     \<lparr>habits = [], progress =
        [\<lparr>habit_id = 1, checkin_date = 739557, completed = True\<rparr>,
         \<lparr>habit_id = 1, checkin_date = 739558, completed = True\<rparr>,
         \<lparr>habit_id = 1, checkin_date = 739558, completed = True\<rparr>],
      clock = 739558\<rparr> = Inr 1"
  by (simp add: get_streak_unfold get_completed_dates_eq sqlite_integer_def
        select_completed_dates_def completed_rows_def order_by_desc_def date_sub_def)

section \<open>Milestones and the fallback message\<close>

lemma QUOTES_not_empty: "QUOTES \<noteq> []"
  by (simp add: QUOTES_def)

lemma get_random_quote_in_QUOTES: "\<exists>q \<in> set QUOTES. get_random_quote r = Inr q"
proof -
  have "r mod length QUOTES < length QUOTES"
    using QUOTES_not_empty by simp
  then have "QUOTES ! (r mod length QUOTES) \<in> set QUOTES"
    by (rule nth_mem)
  then show ?thesis
    using QUOTES_not_empty by (simp add: get_random_quote_def random_choice_def)
qed

text \<open>
  C8. The milestone message is not empty exactly for the streaks 3, 7 and 10, where it
  is the celebration text with the number filled in; for every other integer it is the
  empty string.
\<close>

theorem get_milestone_message_milestones:
  "(get_milestone_message streak \<noteq> '''') = (streak \<in> {3, 7, 10})
   \<and> (get_milestone_message streak = '''') = (streak \<notin> {3, 7, 10})
   \<and> get_milestone_message 3 =
       [CHR 0xF0, CHR 0x9F, CHR 0x8E, CHR 0x89] @
       '' You've hit a 3-day streak! Amazing discipline!''
   \<and> get_milestone_message 7 =
       [CHR 0xF0, CHR 0x9F, CHR 0x8E, CHR 0x89] @
       '' You've hit a 7-day streak! Amazing discipline!''
   \<and> get_milestone_message 10 =
       [CHR 0xF0, CHR 0x9F, CHR 0x8E, CHR 0x89] @
       '' You've hit a 10-day streak! Amazing discipline!''"
proof -
  have "(get_milestone_message streak = '''') = (streak \<notin> {3, 7, 10})"
    by (simp add: get_milestone_message_def)
  moreover have "get_milestone_message 3 =
       [CHR 0xF0, CHR 0x9F, CHR 0x8E, CHR 0x89] @
       '' You've hit a 3-day streak! Amazing discipline!''"
    by code_simp
  moreover have "get_milestone_message 7 =
       [CHR 0xF0, CHR 0x9F, CHR 0x8E, CHR 0x89] @
       '' You've hit a 7-day streak! Amazing discipline!''"
    by code_simp
  moreover have "get_milestone_message 10 =
       [CHR 0xF0, CHR 0x9F, CHR 0x8E, CHR 0x89] @
       '' You've hit a 10-day streak! Amazing discipline!''"
    by code_simp
  ultimately show ?thesis
    by blast
qed

text \<open>
  C9. When the API key is missing or empty, or the call to the language model raises an
  exception, the function returns one of the canned quotes; and whatever the arguments
  and the environment, no exception that \<open>except Exception\<close> catches leaves the function.
\<close>

theorem get_motivational_message_absorbs_failures:
  "((OPENAI_API_KEY env = None \<or> OPENAI_API_KEY env = Some '''' \<or>
      (\<exists>e. chat_completion env system_prompt (human_prompt user_name habit_name streak) = Inl e
           \<and> isinstance_Exception e)) \<longrightarrow>
     (\<exists>q \<in> set QUOTES. get_motivational_message env user_name habit_name streak = Inr q))
   \<and> (\<forall>e. isinstance_Exception e \<longrightarrow>
         get_motivational_message env user_name habit_name streak \<noteq> Inl e)"
proof -
  obtain q where q: "q \<in> set QUOTES" "get_random_quote (random_draw env) = Inr q"
    using get_random_quote_in_QUOTES by blast
  have fallback: "\<exists>q \<in> set QUOTES. get_motivational_message env user_name habit_name streak = Inr q"
    if "OPENAI_API_KEY env = None \<or> OPENAI_API_KEY env = Some '''' \<or>
      (\<exists>e. chat_completion env system_prompt (human_prompt user_name habit_name streak) = Inl e
           \<and> isinstance_Exception e)"
    using that q by (auto simp: get_motivational_message_def Let_def)
  have "get_motivational_message env user_name habit_name streak \<noteq> Inl e"
    if "isinstance_Exception e" for e
    using that q
    by (auto simp: get_motivational_message_def Let_def split: sum.splits)
  with fallback show ?thesis
    by blast
qed

theorem get_motivational_message_absorbs_failures_witness:
  "(\<exists>q \<in> set QUOTES.
      get_motivational_message
        \<lparr>OPENAI_API_KEY = None, chat_completion = (\<lambda>s h. Inr ''Well done!''),
         random_draw = 11\<rparr> ''Ann'' ''running'' 3 = Inr q)
   \<and> (\<exists>q \<in> set QUOTES.
      get_motivational_message
        \<lparr>OPENAI_API_KEY = Some ''sk-test'',
         chat_completion = (\<lambda>s h. Inl (Exception ''connection refused'')),
         random_draw = 11\<rparr> ''Ann'' ''running'' 3 = Inr q)"
  using get_motivational_message_absorbs_failures
      [where env = "\<lparr>OPENAI_API_KEY = None, chat_completion = (\<lambda>s h. Inr ''Well done!''),
         random_draw = 11\<rparr>" and user_name = "''Ann''" and habit_name = "''running''"
         and streak = 3]
    get_motivational_message_absorbs_failures
      [where env = "\<lparr>OPENAI_API_KEY = Some ''sk-test'',
         chat_completion = (\<lambda>s h. Inl (Exception ''connection refused'')),
         random_draw = 11\<rparr>" and user_name = "''Ann''" and habit_name = "''running''"
         and streak = 3]
  by simp

end
